theory Spec2Isabelle
  imports Main
begin

section \<open>Namespace responses (NamespaceHttp.ts)\<close>

text \<open>
  The alias discriminator of the model layer: \<^verbatim>\<open>AliasType.None\<close>, \<^verbatim>\<open>AliasType.Mosaic\<close>
  and \<^verbatim>\<open>AliasType.Address\<close>. \<open>None'\<close> is primed because \<open>None\<close> is the empty option.
\<close>

datatype AliasType = None' | Mosaic | Address

text \<open>
  The wire objects, with the fields the repository reads. A field that the code tests
  for presence (\<^verbatim>\<open>namespace.alias &&\<close>, \<^verbatim>\<open>!alias.mosaicId\<close>,
  \<^verbatim>\<open>namespaceInfoDTO.namespace === undefined\<close>) is an option; \<open>alias'\<close> is primed
  because \<open>alias\<close> is a command of Isabelle.
\<close>

record AliasDTO =
  type :: AliasType
  mosaicId :: "string option"
  address :: "string option"

record NamespaceDTO =
  level0 :: string
  alias' :: "AliasDTO option"

record NamespaceInfoDTO =
  namespace :: "NamespaceDTO option"

text \<open>
  What a mapping function can raise: the response body itself
  (\<^verbatim>\<open>throw namespaceInfoDTO\<close>), an \<^verbatim>\<open>Error\<close> with its message, or the
  \<^verbatim>\<open>TypeError\<close> of JavaScript when a property of \<^verbatim>\<open>undefined\<close> is read.
\<close>

datatype exn = Thrown NamespaceInfoDTO | Error string | TypeError

text \<open>
  JavaScript's \<^verbatim>\<open>!x\<close> on an optional string: true when the field is absent and
  also when it is the empty string.
\<close>

definition falsy :: "string option \<Rightarrow> bool" where
  "falsy x = (x = None \<or> x = Some [])"

text \<open>The closed set of alias variants: EmptyAlias, MosaicAlias, AddressAlias.\<close>

datatype ('m, 'a) Alias = EmptyAlias | MosaicAlias 'm | AddressAlias 'a

text \<open>The discriminator a decoded variant stands for.\<close>

fun aliasTypeOf :: "('m, 'a) Alias \<Rightarrow> AliasType" where
  "aliasTypeOf EmptyAlias = None'"
| "aliasTypeOf (MosaicAlias m) = Mosaic"
| "aliasTypeOf (AddressAlias a) = Address"

text \<open>
  \<^verbatim>\<open>extractAlias(namespace)\<close>. The classes MosaicId and Address are not part of the
  sources read here, so \<^verbatim>\<open>new MosaicId(...)\<close> and \<^verbatim>\<open>Address.createFromEncoded(...)\<close>
  are parameters. They take an optional string: the non-null assertion
  \<^verbatim>\<open>alias.mosaicId!\<close> exists at compile time only, and an absent field reaches the
  constructor as \<^verbatim>\<open>undefined\<close>. A failing constructor makes the whole call fail.
\<close>

definition extractAlias ::
  "(string option \<Rightarrow> exn + 'm) \<Rightarrow> (string option \<Rightarrow> exn + 'a) \<Rightarrow> NamespaceDTO
    \<Rightarrow> exn + ('m, 'a) Alias" where
  "extractAlias newMosaicId createFromEncoded ns =
     (case alias' ns of
        None \<Rightarrow> Inr EmptyAlias
      | Some a \<Rightarrow>
          if type a = Mosaic then
            (case newMosaicId (mosaicId a) of
               Inl e \<Rightarrow> Inl e
             | Inr m \<Rightarrow> Inr (MosaicAlias m))
          else if type a = Address then
            (case createFromEncoded (address a) of
               Inl e \<Rightarrow> Inl e
             | Inr ad \<Rightarrow> Inr (AddressAlias ad))
          else Inr EmptyAlias)"

text \<open>
  The mapping function of \<^verbatim>\<open>getLinkedMosaicId\<close>, applied to the response body.
  Reading \<^verbatim>\<open>alias.type\<close> of a namespace without an alias object is the TypeError.
\<close>

definition getLinkedMosaicId ::
  "(string option \<Rightarrow> exn + 'm) \<Rightarrow> NamespaceInfoDTO \<Rightarrow> exn + 'm" where
  "getLinkedMosaicId newMosaicId body =
     (case namespace body of
        None \<Rightarrow> Inl (Thrown body)
      | Some ns \<Rightarrow>
          (case alias' ns of
             None \<Rightarrow> Inl TypeError
           | Some a \<Rightarrow>
               if type a = None' \<or> type a \<noteq> Mosaic \<or> falsy (mosaicId a)
               then Inl (Error (''No mosaicId is linked to namespace ''
                                  @ [CHR 0x27] @ level0 ns @ [CHR 0x27]))
               else newMosaicId (mosaicId a)))"

text \<open>
  The mapping function of \<^verbatim>\<open>getLinkedAddress\<close>. The address is decoded in three
  steps, \<^verbatim>\<open>convert.hexToUint8\<close>, \<^verbatim>\<open>AddressLibrary.addressToString\<close> and
  \<^verbatim>\<open>Address.createFromRawAddress\<close>, all three parameters; the first failure is the
  result.
\<close>

definition getLinkedAddress ::
  "(string option \<Rightarrow> exn + 'b) \<Rightarrow> ('b \<Rightarrow> exn + string) \<Rightarrow> (string \<Rightarrow> exn + 'a)
    \<Rightarrow> NamespaceInfoDTO \<Rightarrow> exn + 'a" where
  "getLinkedAddress hexToUint8 addressToString createFromRawAddress body =
     (case namespace body of
        None \<Rightarrow> Inl (Thrown body)
      | Some ns \<Rightarrow>
          (case alias' ns of
             None \<Rightarrow> Inl TypeError
           | Some a \<Rightarrow>
               if type a = None' \<or> type a \<noteq> Address \<or> falsy (address a)
               then Inl (Error (''No address is linked to namespace ''
                                  @ [CHR 0x27] @ level0 ns @ [CHR 0x27]))
               else
                 (case hexToUint8 (address a) of
                    Inl e \<Rightarrow> Inl e
                  | Inr bytes \<Rightarrow>
                      (case addressToString bytes of
                         Inl e \<Rightarrow> Inl e
                       | Inr raw \<Rightarrow> createFromRawAddress raw))))"

text \<open>The three-step decoding of \<^verbatim>\<open>getLinkedAddress\<close> on its own.\<close>

definition decodeLinkedAddress ::
  "(string option \<Rightarrow> exn + 'b) \<Rightarrow> ('b \<Rightarrow> exn + string) \<Rightarrow> (string \<Rightarrow> exn + 'a)
    \<Rightarrow> string \<Rightarrow> exn + 'a" where
  "decodeLinkedAddress hexToUint8 addressToString createFromRawAddress s =
     (case hexToUint8 (Some s) of
        Inl e \<Rightarrow> Inl e
      | Inr bytes \<Rightarrow>
          (case addressToString bytes of
             Inl e \<Rightarrow> Inl e
           | Inr raw \<Rightarrow> createFromRawAddress raw))"

section \<open>The repository factory (RepositoryFactoryHttp.ts)\<close>

text \<open>
  NetworkType is a numeric enum, so a network type on the wire and in a configuration is
  a number; the conditional \<^verbatim>\<open>configs?.networkType ? ... : ...\<close> tests it for
  truthiness, which for a number means non-zero and for a string non-empty.
\<close>

type_synonym NetworkType = nat

text \<open>A consumer is whoever subscribes to an observable, named by a number.\<close>

type_synonym consumer = nat

text \<open>
  An outbound HTTP call, named by the repository method that issues it and the URL the
  repository was built with: \<^verbatim>\<open>NetworkHttp.getNetworkType()\<close> (the network-identity
  endpoint), \<^verbatim>\<open>NodeHttp.getNodeInfo()\<close>, and
  \<^verbatim>\<open>accountRoutesApi.getAccountInfo(address.plain())\<close>, the account endpoint
  \<^verbatim>\<open>/accounts/{address}\<close>.
\<close>

datatype request =
    NetworkTypeRequest string
  | NodeInfoRequest string
  | AccountInfoRequest string string

fun isNetworkTypeRequest :: "request \<Rightarrow> bool" where
  "isNetworkTypeRequest (NetworkTypeRequest u) = True"
| "isNetworkTypeRequest (NodeInfoRequest u) = False"
| "isNetworkTypeRequest (AccountInfoRequest u a) = False"

text \<open>What a subscriber observes: the value, or the failure with its message.\<close>

datatype 'v outcome = Success 'v | Failure string

text \<open>
  The state of one tracked value. While the fetch is in flight the state holds the
  consumers attached to it, in the order they subscribed.
\<close>

datatype 'v resolution = Unresolved | Resolving "consumer list" | Resolved 'v | Failed string

text \<open>
  The object that one application of \<^verbatim>\<open>source.pipe(shareReplay(1))\<close> creates: the
  repository call it was applied to, named by the request that call issues, and the
  state of its resolution. Such objects live in a store, a list indexed by address, and
  every application of \<^verbatim>\<open>shareReplay\<close> adds a new one: two pipelines over the same
  call are two objects, each with a state and a fetch of its own.
\<close>

record 'v pipeline =
  source :: request
  state :: "'v resolution"

text \<open>
  The two observables the constructor builds: \<^verbatim>\<open>observableOf(v)\<close>, which hands \<open>v\<close>
  to every subscriber, and a reference to a pipeline in the store, by its address.
  Whoever holds the same reference shares the pipeline.
\<close>

datatype 'v Observable = ObservableOf 'v | ShareReplay nat

text \<open>
  \<^verbatim>\<open>source.pipe(shareReplay(1))\<close>: a new pipeline over \<open>src\<close>, unresolved, at the next
  free address, and the reference to it.
\<close>

definition shareReplay :: "request \<Rightarrow> 'v pipeline list \<Rightarrow> 'v Observable \<times> 'v pipeline list" where
  "shareReplay src ps = (ShareReplay (length ps), ps @ [\<lparr>source = src, state = Unresolved\<rparr>])"

text \<open>
  \<^verbatim>\<open>RepositoryFactoryConfig\<close>: every field is optional. The injected websocket,
  which the constructor only stores for \<^verbatim>\<open>createListener()\<close>, is left out.
\<close>

record RepositoryFactoryConfig =
  configNetworkType :: "NetworkType option"
  configGenerationHash :: "string option"
  configWebsocketUrl :: "string option"

record RepositoryFactoryHttp =
  url :: string
  networkType :: "NetworkType Observable"
  generationHash :: "string Observable"
  websocketUrl :: string

text \<open>
  A repository built by \<^verbatim>\<open>new AccountHttp(url)\<close> and the like keeps its URL;
  NamespaceHttp extends Http with the network type observable it was given.
\<close>

record Http =
  httpUrl :: string

record NamespaceHttp = Http +
  networkTypeObservable :: "NetworkType Observable"

text \<open>
  Everything that changes while factories are built and used: the pipelines of network
  types and of generation hashes, the HTTP calls issued so far, and what each consumer
  has observed so far.
\<close>

record world =
  networkTypePipelines :: "NetworkType pipeline list"
  generationHashPipelines :: "string pipeline list"
  requests :: "request list"
  networkTypeSeen :: "(consumer \<times> NetworkType outcome) list"
  generationHashSeen :: "(consumer \<times> string outcome) list"

definition fresh :: world where
  "fresh = \<lparr>networkTypePipelines = [], generationHashPipelines = [],
            requests = [], networkTypeSeen = [], generationHashSeen = []\<rparr>"

text \<open>\<^verbatim>\<open>url.replace(/\/$/, '')\<close>: one slash at the very end is dropped.\<close>

definition stripTrailingSlash :: "string \<Rightarrow> string" where
  "stripTrailingSlash u = (if u \<noteq> [] \<and> last u = CHR ''/'' then butlast u else u)"

text \<open>
  The constructor, in the order of its assignments. \<^verbatim>\<open>configs?.f\<close> is
  \<open>Option.bind configs f\<close>. Without a truthy network type the field is
  \<^verbatim>\<open>this.createNetworkRepository().getNetworkType().pipe(shareReplay(1))\<close>, one new
  pipeline, where \<^verbatim>\<open>createNetworkRepository()\<close> is \<^verbatim>\<open>new NetworkHttp(this.url)\<close> and
  \<^verbatim>\<open>this.url\<close> is already \<open>u\<close>; the generation hash is built the same way over
  \<^verbatim>\<open>this.createNodeRepository().getNodeInfo()\<close>. The constructor is the only place
  where a factory applies \<^verbatim>\<open>shareReplay\<close>.
\<close>

definition newRepositoryFactoryHttp ::
  "string \<Rightarrow> RepositoryFactoryConfig option \<Rightarrow> world \<Rightarrow> RepositoryFactoryHttp \<times> world" where
  "newRepositoryFactoryHttp u configs w =
     (case (case Option.bind configs configNetworkType of
              Some nt \<Rightarrow>
                if nt \<noteq> 0 then (ObservableOf nt, networkTypePipelines w)
                else shareReplay (NetworkTypeRequest u) (networkTypePipelines w)
            | None \<Rightarrow> shareReplay (NetworkTypeRequest u) (networkTypePipelines w)) of
        (nt, nts) \<Rightarrow>
     (case (case Option.bind configs configGenerationHash of
              Some h \<Rightarrow>
                if h \<noteq> [] then (ObservableOf h, generationHashPipelines w)
                else shareReplay (NodeInfoRequest u) (generationHashPipelines w)
            | None \<Rightarrow> shareReplay (NodeInfoRequest u) (generationHashPipelines w)) of
        (gh, ghs) \<Rightarrow>
       (\<lparr>url = u,
         networkType = nt,
         generationHash = gh,
         websocketUrl =
           (case Option.bind configs configWebsocketUrl of
              Some ws \<Rightarrow> if ws \<noteq> [] then ws else stripTrailingSlash u @ ''/ws''
            | None \<Rightarrow> stripTrailingSlash u @ ''/ws'')\<rparr>,
        w\<lparr>networkTypePipelines := nts, generationHashPipelines := ghs\<rparr>)))"

definition createAccountRepository :: "RepositoryFactoryHttp \<Rightarrow> Http" where
  "createAccountRepository f = \<lparr>httpUrl = url f\<rparr>"

text \<open>
  Modelled from the spec: \<^verbatim>\<open>createNetworkTypeObservable\<close> of Http, which is not among
  the sources read here. The NamespaceHttp constructor passes its second argument
  through it; for the observable a factory hands over, the repository is bound to the
  same resolver, by shared ownership and not by copy.
\<close>

definition createNetworkTypeObservable :: "NetworkType Observable \<Rightarrow> NetworkType Observable" where
  "createNetworkTypeObservable obs = obs"

text \<open>\<^verbatim>\<open>new NamespaceHttp(url, networkType)\<close>, given an observable.\<close>

definition newNamespaceHttp :: "string \<Rightarrow> NetworkType Observable \<Rightarrow> NamespaceHttp" where
  "newNamespaceHttp u obs =
     \<lparr>httpUrl = u, networkTypeObservable = createNetworkTypeObservable obs\<rparr>"

text \<open>\<^verbatim>\<open>new NamespaceHttp(this.url, this.networkType)\<close>.\<close>

definition createNamespaceRepository :: "RepositoryFactoryHttp \<Rightarrow> NamespaceHttp" where
  "createNamespaceRepository f = newNamespaceHttp (url f) (networkType f)"

text \<open>\<^verbatim>\<open>return this.networkType\<close> and \<^verbatim>\<open>return this.generationHash\<close>.\<close>

definition getNetworkType :: "RepositoryFactoryHttp \<Rightarrow> NetworkType Observable" where
  "getNetworkType f = networkType f"

definition getGenerationHash :: "RepositoryFactoryHttp \<Rightarrow> string Observable" where
  "getGenerationHash f = generationHash f"

subsection \<open>Resolution of a shared value\<close>

text \<open>
  Modelled from the spec: the Context Resolver. What a subscription to a
  \<^verbatim>\<open>shareReplay(1)\<close> pipeline does is decided by the rxjs operator and by the
  repository call under it (NetworkHttp, NodeHttp and the \<^verbatim>\<open>call\<close> helper of Http),
  none of which is among the sources read here. The spec gives the state machine: the
  first demand moves Unresolved to Resolving and issues the one fetch; a consumer that
  arrives while Resolving attaches to the fetch in flight; in Resolved the value is
  handed over without a fetch; in Failed the same failure is handed over without a
  fetch. \<open>demand\<close> returns the new state, whether a fetch is issued, and what is
  delivered at once.
\<close>

fun demand :: "consumer \<Rightarrow> 'v resolution \<Rightarrow> 'v resolution \<times> bool \<times> (consumer \<times> 'v outcome) list" where
  "demand c Unresolved = (Resolving [c], True, [])"
| "demand c (Resolving cs) = (Resolving (cs @ [c]), False, [])"
| "demand c (Resolved v) = (Resolved v, False, [(c, Success v)])"
| "demand c (Failed e) = (Failed e, False, [(c, Failure e)])"

text \<open>
  Modelled from the spec: the end of the fetch in flight. Success moves Resolving to
  Resolved, failure to Failed, and every attached consumer receives the outcome. With no
  fetch in flight there is no response to receive, and nothing changes.
\<close>

fun settle :: "'v outcome \<Rightarrow> 'v resolution \<Rightarrow> 'v resolution \<times> (consumer \<times> 'v outcome) list" where
  "settle (Success v) (Resolving cs) = (Resolved v, map (\<lambda>c. (c, Success v)) cs)"
| "settle (Failure e) (Resolving cs) = (Failed e, map (\<lambda>c. (c, Failure e)) cs)"
| "settle r st = (st, [])"

text \<open>
  A subscription by consumer \<open>c\<close> to an observable, given the store: the new store, the
  requests issued, and what is delivered at once. A reference acts on the pipeline at
  its address and on no other; a reference to an address that holds no pipeline, which
  no constructor hands out, reaches nothing.
\<close>

fun subscribe ::
  "'v Observable \<Rightarrow> consumer \<Rightarrow> 'v pipeline list
    \<Rightarrow> 'v pipeline list \<times> request list \<times> (consumer \<times> 'v outcome) list" where
  "subscribe (ObservableOf v) c ps = (ps, [], [(c, Success v)])"
| "subscribe (ShareReplay a) c ps =
     (if a < length ps then
        (case demand c (state (ps ! a)) of
           (st, fetch, ds) \<Rightarrow>
             (ps[a := (ps ! a)\<lparr>state := st\<rparr>], if fetch then [source (ps ! a)] else [], ds))
      else (ps, [], []))"

text \<open>
  The response to the fetch that the pipeline behind an observable has in flight; an
  \<^verbatim>\<open>observableOf\<close> has no fetch to answer.
\<close>

fun respond ::
  "'v Observable \<Rightarrow> 'v outcome \<Rightarrow> 'v pipeline list
    \<Rightarrow> 'v pipeline list \<times> (consumer \<times> 'v outcome) list" where
  "respond (ObservableOf v) r ps = (ps, [])"
| "respond (ShareReplay a) r ps =
     (if a < length ps then
        (case settle r (state (ps ! a)) of
           (st, ds) \<Rightarrow> (ps[a := (ps ! a)\<lparr>state := st\<rparr>], ds))
      else (ps, []))"

subsection \<open>A factory in use\<close>

text \<open>
  \<^verbatim>\<open>getAccountInfo(address)\<close> of an account repository, by the plain address: the one
  invocation of \<^verbatim>\<open>accountRoutesApi.getAccountInfo\<close> it makes.
\<close>

definition getAccountInfo :: "Http \<Rightarrow> string \<Rightarrow> world \<Rightarrow> world" where
  "getAccountInfo repo plain w = w\<lparr>requests := requests w @ [AccountInfoRequest (httpUrl repo) plain]\<rparr>"

text \<open>
  The events of a factory's lifetime, in any order and number. A caller subscribes to
  what \<^verbatim>\<open>getNetworkType()\<close> or \<^verbatim>\<open>getGenerationHash()\<close> returns at that moment; a
  namespace repository, created by the factory at that moment, awaits its
  \<open>networkTypeObservable\<close> before a call; a response ends the fetch that the factory's
  own pipeline has in flight, if any; and a caller may ask the account repository for an
  account.
\<close>

datatype event =
    SubscribeNetworkType consumer
  | RepositoryNetworkType consumer
  | SubscribeGenerationHash consumer
  | NetworkTypeResponse "NetworkType outcome"
  | NodeInfoResponse "string outcome"
  | GetAccountInfo string

definition subscribeNetworkType :: "NetworkType Observable \<Rightarrow> consumer \<Rightarrow> world \<Rightarrow> world" where
  "subscribeNetworkType obs c w =
     (case subscribe obs c (networkTypePipelines w) of
        (ps, reqs, ds) \<Rightarrow>
          w\<lparr>networkTypePipelines := ps, requests := requests w @ reqs,
            networkTypeSeen := networkTypeSeen w @ ds\<rparr>)"

definition subscribeGenerationHash :: "string Observable \<Rightarrow> consumer \<Rightarrow> world \<Rightarrow> world" where
  "subscribeGenerationHash obs c w =
     (case subscribe obs c (generationHashPipelines w) of
        (ps, reqs, ds) \<Rightarrow>
          w\<lparr>generationHashPipelines := ps, requests := requests w @ reqs,
            generationHashSeen := generationHashSeen w @ ds\<rparr>)"

fun step :: "RepositoryFactoryHttp \<Rightarrow> world \<Rightarrow> event \<Rightarrow> world" where
  "step f w (SubscribeNetworkType c) = subscribeNetworkType (getNetworkType f) c w"
| "step f w (RepositoryNetworkType c) =
     subscribeNetworkType (networkTypeObservable (createNamespaceRepository f)) c w"
| "step f w (SubscribeGenerationHash c) = subscribeGenerationHash (getGenerationHash f) c w"
| "step f w (NetworkTypeResponse r) =
     (case respond (networkType f) r (networkTypePipelines w) of
        (ps, ds) \<Rightarrow> w\<lparr>networkTypePipelines := ps, networkTypeSeen := networkTypeSeen w @ ds\<rparr>)"
| "step f w (NodeInfoResponse r) =
     (case respond (generationHash f) r (generationHashPipelines w) of
        (ps, ds) \<Rightarrow> w\<lparr>generationHashPipelines := ps, generationHashSeen := generationHashSeen w @ ds\<rparr>)"
| "step f w (GetAccountInfo plain) = getAccountInfo (createAccountRepository f) plain w"

definition run :: "RepositoryFactoryHttp \<Rightarrow> world \<Rightarrow> event list \<Rightarrow> world" where
  "run f w evs = foldl (step f) w evs"

text \<open>The network-identity fetches issued so far.\<close>

definition networkTypeFetches :: "world \<Rightarrow> request list" where
  "networkTypeFetches w = filter isNetworkTypeRequest (requests w)"

subsection \<open>What a sequence of events asks for\<close>

text \<open>The consumers that subscribed to the network type, in the order of the events.\<close>

fun subscribers :: "event list \<Rightarrow> consumer list" where
  "subscribers [] = []"
| "subscribers (SubscribeNetworkType c # evs) = c # subscribers evs"
| "subscribers (RepositoryNetworkType c # evs) = c # subscribers evs"
| "subscribers (e # evs) = subscribers evs"

text \<open>
  The outcome of the one fetch, read off the events alone: the first network type
  response that arrives once somebody has subscribed (\<open>demanded\<close> tells whether somebody
  already has). A response that arrives before any demand answers no fetch.
\<close>

fun fetchOutcome :: "bool \<Rightarrow> event list \<Rightarrow> NetworkType outcome option" where
  "fetchOutcome demanded [] = None"
| "fetchOutcome demanded (SubscribeNetworkType c # evs) = fetchOutcome True evs"
| "fetchOutcome demanded (RepositoryNetworkType c # evs) = fetchOutcome True evs"
| "fetchOutcome demanded (NetworkTypeResponse r # evs) =
     (if demanded then Some r else fetchOutcome demanded evs)"
| "fetchOutcome demanded (e # evs) = fetchOutcome demanded evs"

text \<open>
  What the subscribers of a sequence of events are to have observed: nothing while the
  fetch has no outcome, and afterwards each of them that one outcome.
\<close>

definition observations :: "event list \<Rightarrow> (consumer \<times> NetworkType outcome) list" where
  "observations evs =
     (case fetchOutcome False evs of
        None \<Rightarrow> []
      | Some r \<Rightarrow> map (\<lambda>c. (c, r)) (subscribers evs))"

text \<open>The state the one pipeline is to be in after a sequence of events.\<close>

definition stateAfter :: "event list \<Rightarrow> NetworkType resolution" where
  "stateAfter evs =
     (case fetchOutcome False evs of
        None \<Rightarrow> if subscribers evs = [] then Unresolved else Resolving (subscribers evs)
      | Some (Success v) \<Rightarrow> Resolved v
      | Some (Failure e) \<Rightarrow> Failed e)"

subsection \<open>Invariants of a factory in use\<close>

text \<open>
  The references of a factory built for the URL \<open>u\<close> point into the store, at a
  pipeline over the factory's own repository call.
\<close>

definition built :: "RepositoryFactoryHttp \<Rightarrow> string \<Rightarrow> world \<Rightarrow> bool" where
  "built f u w =
     (url f = u
      \<and> (case networkType f of
           ObservableOf nt \<Rightarrow> True
         | ShareReplay a \<Rightarrow>
             a < length (networkTypePipelines w)
             \<and> source (networkTypePipelines w ! a) = NetworkTypeRequest u)
      \<and> (case generationHash f of
           ObservableOf h \<Rightarrow> True
         | ShareReplay g \<Rightarrow>
             g < length (generationHashPipelines w)
             \<and> source (generationHashPipelines w ! g) = NodeInfoRequest u))"

text \<open>
  What holds of a factory whose network type is the pipeline at address \<open>a\<close>, after the
  events \<open>evs\<close>, when \<open>fetched\<close> and \<open>seen\<close> were the network-identity fetches and the
  observations before the factory was built.
\<close>

definition sharedInvariant ::
  "nat \<Rightarrow> string \<Rightarrow> request list \<Rightarrow> (consumer \<times> NetworkType outcome) list \<Rightarrow> event list
    \<Rightarrow> world \<Rightarrow> bool" where
  "sharedInvariant a u fetched seen evs w =
     (state (networkTypePipelines w ! a) = stateAfter evs
      \<and> networkTypeFetches w
          = fetched @ (if subscribers evs = [] then [] else [NetworkTypeRequest u])
      \<and> networkTypeSeen w = seen @ observations evs)"

text \<open>
  What holds of a factory that was given its network type \<open>nt\<close>: nothing is fetched,
  and each subscriber has seen the given value.
\<close>

definition explicitInvariant ::
  "NetworkType \<Rightarrow> request list \<Rightarrow> (consumer \<times> NetworkType outcome) list \<Rightarrow> event list
    \<Rightarrow> world \<Rightarrow> bool" where
  "explicitInvariant nt fetched seen evs w =
     (networkTypeFetches w = fetched
      \<and> networkTypeSeen w = seen @ map (\<lambda>c. (c, Success nt)) (subscribers evs))"

section \<open>Alias decoding\<close>

text \<open>
  C5. A namespace whose alias discriminator is \<^verbatim>\<open>AliasType.None\<close> decodes to
  EmptyAlias whatever the mosaicId and address fields hold and whatever the two
  constructors would do with them; and whenever decoding succeeds on a namespace that
  has an alias object, the variant returned is the one the discriminator names, so the
  presence of an optional field never changes the variant.
\<close>

theorem extractAlias_none_tag:
  "(alias' ns = Some a \<and> type a = None'
      \<longrightarrow> extractAlias newMosaicId createFromEncoded ns = Inr EmptyAlias)
   \<and> (alias' ns = Some a \<and> extractAlias newMosaicId createFromEncoded ns = Inr r
        \<longrightarrow> aliasTypeOf r = type a)"
proof (intro conjI impI)
  assume "alias' ns = Some a \<and> type a = None'"
  then show "extractAlias newMosaicId createFromEncoded ns = Inr EmptyAlias"
    by (simp add: extractAlias_def)
next
  assume h: "alias' ns = Some a \<and> extractAlias newMosaicId createFromEncoded ns = Inr r"
  show "aliasTypeOf r = type a"
  proof (cases "type a")
    case None'
    with h show ?thesis by (auto simp: extractAlias_def)
  next
    case Mosaic
    with h show ?thesis by (auto simp: extractAlias_def split: sum.splits)
  next
    case Address
    with h show ?thesis by (auto simp: extractAlias_def split: sum.splits)
  qed
qed

theorem extractAlias_none_tag_witness:
  "extractAlias (Inr :: string option \<Rightarrow> exn + string option)
      (Inr :: string option \<Rightarrow> exn + string option)
      \<lparr>level0 = ''84B3552D375FFA4B'',
       alias' = Some \<lparr>type = None', mosaicId = Some ''0DC67FBE1CAD29E3'',
                       address = Some ''9050B9837EFAB4BBE8A4B9BB32D812F9885C00D8FC1650E1''\<rparr>\<rparr>
     = Inr EmptyAlias"
  using extractAlias_none_tag
    [where ns = "\<lparr>level0 = ''84B3552D375FFA4B'',
                  alias' = Some \<lparr>type = None', mosaicId = Some ''0DC67FBE1CAD29E3'',
                                  address = Some ''9050B9837EFAB4BBE8A4B9BB32D812F9885C00D8FC1650E1''\<rparr>\<rparr>"
       and a = "\<lparr>type = None', mosaicId = Some ''0DC67FBE1CAD29E3'',
                 address = Some ''9050B9837EFAB4BBE8A4B9BB32D812F9885C00D8FC1650E1''\<rparr>"
       and newMosaicId = Inr and createFromEncoded = Inr and r = EmptyAlias]
  by simp

section \<open>Linked mosaic id and linked address\<close>

text \<open>
  C10, as the code has it. For every namespace response processed by
  \<^verbatim>\<open>getLinkedMosaicId\<close> (respectively \<^verbatim>\<open>getLinkedAddress\<close>): a response without the
  namespace field makes the mapping throw the response body itself; for a namespace
  with an alias object, an alias type that is None or is not Mosaic (respectively
  Address), or a mosaicId (respectively address) field that is absent or the empty
  string, gives the Error "No mosaicId (address) is linked to namespace '<level0>'";
  otherwise the result is that of \<^verbatim>\<open>new MosaicId\<close> on the payload (respectively of
  decoding the payload through hexToUint8, addressToString and createFromRawAddress).
\<close>

theorem getLinked_outcomes:
  "(namespace body = None \<longrightarrow>
      getLinkedMosaicId newMosaicId body = Inl (Thrown body)
      \<and> getLinkedAddress hexToBytes addressToString createFromRawAddress body
          = Inl (Thrown body))
   \<and> (namespace body = Some ns \<and> alias' ns = Some a \<longrightarrow>
        (type a = None' \<or> type a \<noteq> Mosaic \<or> mosaicId a = None \<or> mosaicId a = Some []
           \<longrightarrow> getLinkedMosaicId newMosaicId body
                = Inl (Error (''No mosaicId is linked to namespace ''
                                @ [CHR 0x27] @ level0 ns @ [CHR 0x27])))
        \<and> (type a = Mosaic \<and> mosaicId a = Some s \<and> s \<noteq> []
           \<longrightarrow> getLinkedMosaicId newMosaicId body = newMosaicId (Some s))
        \<and> (type a = None' \<or> type a \<noteq> Address \<or> address a = None \<or> address a = Some []
           \<longrightarrow> getLinkedAddress hexToBytes addressToString createFromRawAddress body
                = Inl (Error (''No address is linked to namespace ''
                                @ [CHR 0x27] @ level0 ns @ [CHR 0x27])))
        \<and> (type a = Address \<and> address a = Some s \<and> s \<noteq> []
           \<longrightarrow> getLinkedAddress hexToBytes addressToString createFromRawAddress body
                = decodeLinkedAddress hexToBytes addressToString createFromRawAddress s))"
proof (intro conjI impI)
  assume "namespace body = None"
  then show "getLinkedMosaicId newMosaicId body = Inl (Thrown body)"
    by (simp add: getLinkedMosaicId_def)
next
  assume "namespace body = None"
  then show "getLinkedAddress hexToBytes addressToString createFromRawAddress body
      = Inl (Thrown body)"
    by (simp add: getLinkedAddress_def)
next
  assume "namespace body = Some ns \<and> alias' ns = Some a"
    and "type a = None' \<or> type a \<noteq> Mosaic \<or> mosaicId a = None \<or> mosaicId a = Some []"
  then show "getLinkedMosaicId newMosaicId body
      = Inl (Error (''No mosaicId is linked to namespace '' @ [CHR 0x27] @ level0 ns @ [CHR 0x27]))"
    by (auto simp: getLinkedMosaicId_def falsy_def)
next
  assume "namespace body = Some ns \<and> alias' ns = Some a"
    and "type a = Mosaic \<and> mosaicId a = Some s \<and> s \<noteq> []"
  then show "getLinkedMosaicId newMosaicId body = newMosaicId (Some s)"
    by (simp add: getLinkedMosaicId_def falsy_def)
next
  assume "namespace body = Some ns \<and> alias' ns = Some a"
    and "type a = None' \<or> type a \<noteq> Address \<or> address a = None \<or> address a = Some []"
  then show "getLinkedAddress hexToBytes addressToString createFromRawAddress body
      = Inl (Error (''No address is linked to namespace '' @ [CHR 0x27] @ level0 ns @ [CHR 0x27]))"
    by (auto simp: getLinkedAddress_def falsy_def)
next
  assume "namespace body = Some ns \<and> alias' ns = Some a"
    and "type a = Address \<and> address a = Some s \<and> s \<noteq> []"
  then show "getLinkedAddress hexToBytes addressToString createFromRawAddress body
      = decodeLinkedAddress hexToBytes addressToString createFromRawAddress s"
    by (simp add: getLinkedAddress_def decodeLinkedAddress_def falsy_def)
qed

theorem getLinked_outcomes_witness:
  "getLinkedMosaicId (Inr :: string option \<Rightarrow> exn + string option)
      \<lparr>namespace = Some \<lparr>level0 = ''84B3552D375FFA4B'',
                          alias' = Some \<lparr>type = Mosaic, mosaicId = Some ''0DC67FBE1CAD29E3'',
                                          address = None\<rparr>\<rparr>\<rparr>
     = Inr (Some ''0DC67FBE1CAD29E3'')
   \<and> getLinkedMosaicId (Inr :: string option \<Rightarrow> exn + string option)
      \<lparr>namespace = Some \<lparr>level0 = ''84B3552D375FFA4B'',
                          alias' = Some \<lparr>type = Address, mosaicId = Some ''0DC67FBE1CAD29E3'',
                                          address = None\<rparr>\<rparr>\<rparr>
     = Inl (Error (''No mosaicId is linked to namespace ''
                     @ [CHR 0x27] @ ''84B3552D375FFA4B'' @ [CHR 0x27]))"
  using getLinked_outcomes
    [where body = "\<lparr>namespace = Some \<lparr>level0 = ''84B3552D375FFA4B'',
                          alias' = Some \<lparr>type = Mosaic, mosaicId = Some ''0DC67FBE1CAD29E3'',
                                          address = None\<rparr>\<rparr>\<rparr>"
       and ns = "\<lparr>level0 = ''84B3552D375FFA4B'',
                  alias' = Some \<lparr>type = Mosaic, mosaicId = Some ''0DC67FBE1CAD29E3'',
                                  address = None\<rparr>\<rparr>"
       and a = "\<lparr>type = Mosaic, mosaicId = Some ''0DC67FBE1CAD29E3'', address = None\<rparr>"
       and s = "''0DC67FBE1CAD29E3''" and newMosaicId = Inr
       and hexToBytes = "\<lambda>x. Inl TypeError :: exn + unit"
       and addressToString = "\<lambda>x. Inl TypeError :: exn + string"
       and createFromRawAddress = "\<lambda>x. Inl TypeError :: exn + unit"]
    getLinked_outcomes
    [where body = "\<lparr>namespace = Some \<lparr>level0 = ''84B3552D375FFA4B'',
                          alias' = Some \<lparr>type = Address, mosaicId = Some ''0DC67FBE1CAD29E3'',
                                          address = None\<rparr>\<rparr>\<rparr>"
       and ns = "\<lparr>level0 = ''84B3552D375FFA4B'',
                  alias' = Some \<lparr>type = Address, mosaicId = Some ''0DC67FBE1CAD29E3'',
                                  address = None\<rparr>\<rparr>"
       and a = "\<lparr>type = Address, mosaicId = Some ''0DC67FBE1CAD29E3'', address = None\<rparr>"
       and newMosaicId = Inr
       and hexToBytes = "\<lambda>x. Inl TypeError :: exn + unit"
       and addressToString = "\<lambda>x. Inl TypeError :: exn + string"
       and createFromRawAddress = "\<lambda>x. Inl TypeError :: exn + unit"]
  by simp

text \<open>
  The claim as first stated lets every payload that is present reach the constructor.
  A mosaicId field that is present and empty does not: \<^verbatim>\<open>!alias.mosaicId\<close> holds for
  the empty string, and the call fails with the Error instead of returning what
  \<^verbatim>\<open>new MosaicId\<close> gives for it.
\<close>

theorem getLinkedMosaicId_empty_payload_counterexample:
  "getLinkedMosaicId (Inr :: string option \<Rightarrow> exn + string option)
      \<lparr>namespace = Some \<lparr>level0 = ''84B3552D375FFA4B'',
                          alias' = Some \<lparr>type = Mosaic, mosaicId = Some [],
                                          address = None\<rparr>\<rparr>\<rparr>
     = Inl (Error (''No mosaicId is linked to namespace ''
                     @ [CHR 0x27] @ ''84B3552D375FFA4B'' @ [CHR 0x27]))"
  by (simp add: getLinkedMosaicId_def falsy_def)

section \<open>Factories and their pipelines\<close>

lemma run_snoc: "run f w (evs @ [e]) = step f (run f w evs) e"
  by (simp add: run_def)

lemma subscribers_append: "subscribers (xs @ ys) = subscribers xs @ subscribers ys"
  by (induction xs rule: subscribers.induct) auto

lemma fetchOutcome_append:
  "fetchOutcome d (xs @ ys) =
     (case fetchOutcome d xs of
        Some r \<Rightarrow> Some r
      | None \<Rightarrow> fetchOutcome (d \<or> subscribers xs \<noteq> []) ys)"
  by (induction d xs rule: fetchOutcome.induct) (auto split: option.splits)

lemma constructor_shared:
  assumes "Option.bind configs configNetworkType = None"
    and "newRepositoryFactoryHttp u configs w0 = (f, w1)"
  shows "networkType f = ShareReplay (length (networkTypePipelines w0))"
    and "built f u w1"
    and "state (networkTypePipelines w1 ! length (networkTypePipelines w0)) = Unresolved"
    and "requests w1 = requests w0"
    and "networkTypeSeen w1 = networkTypeSeen w0"
  using assms
  by (auto simp: newRepositoryFactoryHttp_def shareReplay_def built_def nth_append
      split: option.splits if_splits)

lemma constructor_explicit:
  assumes "configNetworkType cfg = Some nt" and "nt \<noteq> 0"
    and "newRepositoryFactoryHttp u (Some cfg) w0 = (f, w1)"
  shows "networkType f = ObservableOf nt"
    and "built f u w1"
    and "requests w1 = requests w0"
    and "networkTypeSeen w1 = networkTypeSeen w0"
  using assms
  by (auto simp: newRepositoryFactoryHttp_def shareReplay_def built_def nth_append
      split: option.splits if_splits)

lemma built_step: "built f u w \<Longrightarrow> built f u (step f w e)"
proof (cases e)
  case (SubscribeNetworkType c)
  assume "built f u w"
  with SubscribeNetworkType show ?thesis
    by (cases "networkType f"; cases "generationHash f")
       (auto simp: built_def subscribeNetworkType_def getNetworkType_def nth_list_update
          split: prod.splits)
next
  case (RepositoryNetworkType c)
  assume "built f u w"
  with RepositoryNetworkType show ?thesis
    by (cases "networkType f"; cases "generationHash f")
       (auto simp: built_def subscribeNetworkType_def createNamespaceRepository_def
          newNamespaceHttp_def createNetworkTypeObservable_def nth_list_update
          split: prod.splits)
next
  case (SubscribeGenerationHash c)
  assume "built f u w"
  with SubscribeGenerationHash show ?thesis
    by (cases "networkType f"; cases "generationHash f")
       (auto simp: built_def subscribeGenerationHash_def getGenerationHash_def nth_list_update
          split: prod.splits)
next
  case (NetworkTypeResponse r)
  assume "built f u w"
  with NetworkTypeResponse show ?thesis
    by (cases "networkType f"; cases "generationHash f")
       (auto simp: built_def nth_list_update split: prod.splits)
next
  case (NodeInfoResponse r)
  assume "built f u w"
  with NodeInfoResponse show ?thesis
    by (cases "networkType f"; cases "generationHash f")
       (auto simp: built_def nth_list_update split: prod.splits)
next
  case (GetAccountInfo a)
  assume "built f u w"
  with GetAccountInfo show ?thesis
    by (cases "networkType f"; cases "generationHash f")
       (auto simp: built_def getAccountInfo_def)
qed

lemma built_run: "built f u w \<Longrightarrow> built f u (run f w evs)"
  by (induction evs rule: rev_induct) (simp_all add: run_def built_step)

lemma generationHash_fetches:
  assumes "built f u w"
  shows "networkTypeFetches (step f w (SubscribeGenerationHash c)) = networkTypeFetches w"
    and "networkTypeSeen (step f w (SubscribeGenerationHash c)) = networkTypeSeen w"
    and "networkTypePipelines (step f w (SubscribeGenerationHash c)) = networkTypePipelines w"
  using assms
  by (cases "generationHash f";
      auto simp: built_def subscribeGenerationHash_def getGenerationHash_def networkTypeFetches_def
        split: prod.splits if_splits resolution.splits)+


lemma fetchOutcome_snoc:
  "fetchOutcome False (evs @ [e]) =
     (case fetchOutcome False evs of
        Some r \<Rightarrow> Some r
      | None \<Rightarrow> fetchOutcome (subscribers evs \<noteq> []) [e])"
  by (simp add: fetchOutcome_append split: option.splits)

lemma fetchOutcome_demanded:
  "fetchOutcome d evs = Some r \<Longrightarrow> d \<or> subscribers evs \<noteq> []"
  by (induction d evs rule: fetchOutcome.induct) (auto split: if_splits)

lemma fetchOutcome_subscribers:
  "fetchOutcome False evs = Some r \<Longrightarrow> subscribers evs \<noteq> []"
  using fetchOutcome_demanded by blast

text \<open>
  Sharing is a matter of references: subscriptions through two pipelines over the same
  repository call are two fetches, where two subscriptions through one pipeline are one.
\<close>

lemma two_pipelines_two_fetches:
  "fst (snd (subscribe (ShareReplay 1) 2
       (fst (subscribe (ShareReplay 0) 1
          [\<lparr>source = NetworkTypeRequest u, state = (Unresolved :: NetworkType resolution)\<rparr>,
           \<lparr>source = NetworkTypeRequest u, state = Unresolved\<rparr>]))))
     = [NetworkTypeRequest u]
   \<and> fst (snd (subscribe (ShareReplay 0) 2
       (fst (subscribe (ShareReplay 0) 1
          [\<lparr>source = NetworkTypeRequest u, state = (Unresolved :: NetworkType resolution)\<rparr>,
           \<lparr>source = NetworkTypeRequest u, state = Unresolved\<rparr>]))))
     = []"
  by simp

section \<open>The shared network type\<close>

lemma sharedInvariant_step:
  assumes nt: "networkType f = ShareReplay a"
    and b: "built f u w"
    and inv: "sharedInvariant a u fetched seen evs w"
  shows "sharedInvariant a u fetched seen (evs @ [e]) (step f w e)"
proof -
  from nt b have a: "a < length (networkTypePipelines w)"
    and src: "source (networkTypePipelines w ! a) = NetworkTypeRequest u"
    by (simp_all add: built_def)
  show ?thesis
  proof (cases e)
    case (SubscribeNetworkType c)
    with nt a src inv fetchOutcome_subscribers [of evs] show ?thesis
      by (cases "fetchOutcome False evs")
         (auto simp: sharedInvariant_def stateAfter_def observations_def subscribers_append
            fetchOutcome_snoc subscribeNetworkType_def getNetworkType_def networkTypeFetches_def
            split: outcome.splits)
  next
    case (RepositoryNetworkType c)
    with nt a src inv fetchOutcome_subscribers [of evs] show ?thesis
      by (cases "fetchOutcome False evs")
         (auto simp: sharedInvariant_def stateAfter_def observations_def subscribers_append
            fetchOutcome_snoc subscribeNetworkType_def createNamespaceRepository_def
            newNamespaceHttp_def createNetworkTypeObservable_def networkTypeFetches_def
            split: outcome.splits)
  next
    case (SubscribeGenerationHash c)
    with generationHash_fetches [OF b, of c] inv show ?thesis
      by (simp add: sharedInvariant_def stateAfter_def observations_def subscribers_append
          fetchOutcome_snoc split: option.splits)
  next
    case (NetworkTypeResponse r)
    with nt a src inv fetchOutcome_subscribers [of evs] show ?thesis
      by (cases "fetchOutcome False evs"; cases r)
         (auto simp: sharedInvariant_def stateAfter_def observations_def subscribers_append
            fetchOutcome_snoc networkTypeFetches_def split: outcome.splits)
  next
    case (NodeInfoResponse r)
    with inv show ?thesis
      by (cases "respond (generationHash f) r (generationHashPipelines w)")
         (simp add: sharedInvariant_def stateAfter_def observations_def subscribers_append
            fetchOutcome_snoc networkTypeFetches_def split: option.splits)
  next
    case (GetAccountInfo p)
    with inv show ?thesis
      by (simp add: sharedInvariant_def stateAfter_def observations_def subscribers_append
          fetchOutcome_snoc getAccountInfo_def networkTypeFetches_def split: option.splits)
  qed
qed

lemma sharedInvariant_run:
  assumes nt: "networkType f = ShareReplay a"
    and b: "built f u w"
    and inv: "sharedInvariant a u fetched seen [] w"
  shows "sharedInvariant a u fetched seen evs (run f w evs)"
proof (induction evs rule: rev_induct)
  case Nil
  from inv show ?case by (simp add: run_def)
next
  case (snoc e evs)
  from sharedInvariant_step [OF nt built_run [OF b] snoc.IH]
  show ?case by (simp add: run_snoc)
qed

lemma shared_from_constructor:
  assumes "Option.bind configs configNetworkType = None"
    and "newRepositoryFactoryHttp u configs w0 = (f, w1)"
  shows "sharedInvariant (length (networkTypePipelines w0)) u (networkTypeFetches w0)
           (networkTypeSeen w0) evs (run f w1 evs)"
proof -
  note c = constructor_shared [OF assms]
  have "sharedInvariant (length (networkTypePipelines w0)) u (networkTypeFetches w0)
          (networkTypeSeen w0) [] w1"
    using c(3,4,5)
    by (simp add: sharedInvariant_def stateAfter_def observations_def networkTypeFetches_def)
  from sharedInvariant_run [OF c(1) c(2) this] show ?thesis .
qed

text \<open>
  C1. A factory built without a network type in its configuration, in any world, and
  then used by any sequence of events (any number of subscriptions, through
  \<^verbatim>\<open>getNetworkType()\<close> and through repositories the factory creates, interleaved with
  responses and other calls): the network-identity fetches are those issued before the
  factory was built and at most one more, the factory's own, issued exactly when
  somebody has subscribed; and what has been observed is what was observed before,
  followed by nothing while that one fetch has no outcome and, once it has, by its one
  outcome for each subscriber in turn.
\<close>

theorem one_fetch_shared_value:
  assumes "Option.bind configs configNetworkType = None"
    and "newRepositoryFactoryHttp u configs w0 = (f, w1)"
  shows "networkTypeFetches (run f w1 evs)
           = networkTypeFetches w0 @ (if subscribers evs = [] then [] else [NetworkTypeRequest u])
         \<and> length (networkTypeFetches (run f w1 evs)) \<le> length (networkTypeFetches w0) + 1
         \<and> networkTypeSeen (run f w1 evs) = networkTypeSeen w0 @ observations evs"
  using shared_from_constructor [OF assms, of evs]
  by (simp add: sharedInvariant_def)

theorem one_fetch_shared_value_witness:
  "networkTypeFetches
     (run (fst (newRepositoryFactoryHttp ''http://node:3000'' None fresh))
        (snd (newRepositoryFactoryHttp ''http://node:3000'' None fresh))
        [SubscribeNetworkType 1, RepositoryNetworkType 2, NetworkTypeResponse (Success 152),
         SubscribeNetworkType 3])
     = [NetworkTypeRequest ''http://node:3000'']
   \<and> networkTypeSeen
     (run (fst (newRepositoryFactoryHttp ''http://node:3000'' None fresh))
        (snd (newRepositoryFactoryHttp ''http://node:3000'' None fresh))
        [SubscribeNetworkType 1, RepositoryNetworkType 2, NetworkTypeResponse (Success 152),
         SubscribeNetworkType 3])
     = [(1, Success 152), (2, Success 152), (3, Success 152)]"
  using one_fetch_shared_value
    [where configs = None and u = "''http://node:3000''" and ?w0.0 = fresh
       and f = "fst (newRepositoryFactoryHttp ''http://node:3000'' None fresh)"
       and ?w1.0 = "snd (newRepositoryFactoryHttp ''http://node:3000'' None fresh)"
       and evs = "[SubscribeNetworkType 1, RepositoryNetworkType 2,
                   NetworkTypeResponse (Success 152), SubscribeNetworkType 3]"]
  by (simp add: observations_def networkTypeFetches_def fresh_def)

section \<open>A failed resolution\<close>

text \<open>
  C3. A factory built without a network type, whose first fetch is in flight after the
  events \<open>before\<close> (somebody has subscribed and no response has arrived) and then
  fails with \<open>e\<close>: whatever events follow, the factory's network-identity fetch is
  still the only one it has issued, everyone who subscribed before or after the failure,
  through \<^verbatim>\<open>getNetworkType()\<close> or through a repository, has observed the failure \<open>e\<close>
  and nothing else, and the pipeline that \<^verbatim>\<open>getNetworkType()\<close> returns is in the state
  Failed \<open>e\<close>.
\<close>

theorem failure_is_kept:
  assumes "Option.bind configs configNetworkType = None"
    and "newRepositoryFactoryHttp u configs w0 = (f, w1)"
    and "subscribers before \<noteq> []"
    and "fetchOutcome False before = None"
  shows "networkTypeFetches (run f w1 (before @ NetworkTypeResponse (Failure e) # after))
           = networkTypeFetches w0 @ [NetworkTypeRequest u]
         \<and> networkTypeSeen (run f w1 (before @ NetworkTypeResponse (Failure e) # after))
           = networkTypeSeen w0
             @ map (\<lambda>c. (c, Failure e)) (subscribers before @ subscribers after)
         \<and> (\<exists>a. getNetworkType f = ShareReplay a
              \<and> state (networkTypePipelines
                         (run f w1 (before @ NetworkTypeResponse (Failure e) # after)) ! a)
                  = Failed e)"
proof -
  let ?evs = "before @ NetworkTypeResponse (Failure e) # after"
  have o: "fetchOutcome False ?evs = Some (Failure e)"
    using assms(3,4) by (simp add: fetchOutcome_append)
  have s: "subscribers ?evs = subscribers before @ subscribers after"
    by (simp add: subscribers_append)
  from shared_from_constructor [OF assms(1,2), of ?evs] o s assms(3)
    constructor_shared(1) [OF assms(1,2)]
  show ?thesis
    by (simp add: sharedInvariant_def stateAfter_def observations_def getNetworkType_def)
qed

theorem failure_is_kept_witness:
  "networkTypeFetches
     (run (fst (newRepositoryFactoryHttp ''http://node:3000'' None fresh))
        (snd (newRepositoryFactoryHttp ''http://node:3000'' None fresh))
        ([SubscribeNetworkType 1, RepositoryNetworkType 2]
         @ NetworkTypeResponse (Failure ''ECONNREFUSED'')
         # [SubscribeNetworkType 3, NetworkTypeResponse (Success 152), RepositoryNetworkType 4]))
     = [NetworkTypeRequest ''http://node:3000'']
   \<and> networkTypeSeen
     (run (fst (newRepositoryFactoryHttp ''http://node:3000'' None fresh))
        (snd (newRepositoryFactoryHttp ''http://node:3000'' None fresh))
        ([SubscribeNetworkType 1, RepositoryNetworkType 2]
         @ NetworkTypeResponse (Failure ''ECONNREFUSED'')
         # [SubscribeNetworkType 3, NetworkTypeResponse (Success 152), RepositoryNetworkType 4]))
     = [(1, Failure ''ECONNREFUSED''), (2, Failure ''ECONNREFUSED''),
        (3, Failure ''ECONNREFUSED''), (4, Failure ''ECONNREFUSED'')]"
  using failure_is_kept
    [where configs = None and u = "''http://node:3000''" and ?w0.0 = fresh
       and f = "fst (newRepositoryFactoryHttp ''http://node:3000'' None fresh)"
       and ?w1.0 = "snd (newRepositoryFactoryHttp ''http://node:3000'' None fresh)"
       and before = "[SubscribeNetworkType 1, RepositoryNetworkType 2]"
       and e = "''ECONNREFUSED''"
       and after = "[SubscribeNetworkType 3, NetworkTypeResponse (Success 152),
                     RepositoryNetworkType 4]"]
  by (simp add: networkTypeFetches_def fresh_def)

section \<open>A network type given at construction\<close>

lemma explicitInvariant_step:
  assumes nt: "networkType f = ObservableOf nt"
    and b: "built f u w"
    and inv: "explicitInvariant nt fetched seen evs w"
  shows "explicitInvariant nt fetched seen (evs @ [e]) (step f w e)"
proof (cases e)
  case (SubscribeNetworkType c)
  with nt inv show ?thesis
    by (simp add: explicitInvariant_def subscribers_append subscribeNetworkType_def
        getNetworkType_def networkTypeFetches_def)
next
  case (RepositoryNetworkType c)
  with nt inv show ?thesis
    by (simp add: explicitInvariant_def subscribers_append subscribeNetworkType_def
        createNamespaceRepository_def newNamespaceHttp_def createNetworkTypeObservable_def
        networkTypeFetches_def)
next
  case (SubscribeGenerationHash c)
  with generationHash_fetches [OF b, of c] inv show ?thesis
    by (simp add: explicitInvariant_def subscribers_append)
next
  case (NetworkTypeResponse r)
  with nt inv show ?thesis
    by (simp add: explicitInvariant_def subscribers_append networkTypeFetches_def)
next
  case (NodeInfoResponse r)
  with inv show ?thesis
    by (cases "respond (generationHash f) r (generationHashPipelines w)")
       (simp add: explicitInvariant_def subscribers_append networkTypeFetches_def)
next
  case (GetAccountInfo p)
  with inv show ?thesis
    by (simp add: explicitInvariant_def subscribers_append getAccountInfo_def
        networkTypeFetches_def)
qed

lemma explicitInvariant_run:
  assumes nt: "networkType f = ObservableOf nt"
    and b: "built f u w"
    and inv: "explicitInvariant nt fetched seen [] w"
  shows "explicitInvariant nt fetched seen evs (run f w evs)"
proof (induction evs rule: rev_induct)
  case Nil
  from inv show ?case by (simp add: run_def)
next
  case (snoc e evs)
  from explicitInvariant_step [OF nt built_run [OF b] snoc.IH]
  show ?case by (simp add: run_snoc)
qed

text \<open>
  C2. A factory built with a network type in its configuration (a member of the enum,
  hence not zero), in any world: \<^verbatim>\<open>getNetworkType()\<close> is the observable of that value,
  and a subscription to it, whatever the store holds, changes nothing, issues no request
  and delivers the value at once; over any sequence of events no network-identity fetch
  is added to those issued before the factory was built, and every subscriber observes
  the given value; and \<^verbatim>\<open>createAccountRepository().getAccountInfo(address)\<close> adds
  exactly one HTTP call, the account call for that address at the factory's URL.
\<close>

theorem explicit_network_type_no_fetch:
  assumes "configNetworkType cfg = Some nt" and "nt \<noteq> 0"
    and "newRepositoryFactoryHttp u (Some cfg) w0 = (f, w1)"
  shows "getNetworkType f = ObservableOf nt
         \<and> subscribe (getNetworkType f) c ps = (ps, [], [(c, Success nt)])
         \<and> networkTypeFetches (run f w1 evs) = networkTypeFetches w0
         \<and> networkTypeSeen (run f w1 evs)
             = networkTypeSeen w0 @ map (\<lambda>c. (c, Success nt)) (subscribers evs)
         \<and> requests (getAccountInfo (createAccountRepository f) plain w)
             = requests w @ [AccountInfoRequest u plain]"
proof -
  note c = constructor_explicit [OF assms]
  have "explicitInvariant nt (networkTypeFetches w0) (networkTypeSeen w0) [] w1"
    using c(3,4) by (simp add: explicitInvariant_def networkTypeFetches_def)
  from explicitInvariant_run [OF c(1) c(2) this, of evs] c(1) c(2)
  show ?thesis
    by (simp add: explicitInvariant_def getNetworkType_def getAccountInfo_def
        createAccountRepository_def built_def)
qed


theorem explicit_network_type_no_fetch_witness:
  "getNetworkType
     (fst (newRepositoryFactoryHttp ''http://node:3000''
        (Some \<lparr>configNetworkType = Some 152, configGenerationHash = None,
               configWebsocketUrl = None\<rparr>) fresh)) = ObservableOf 152
   \<and> networkTypeFetches
     (run (fst (newRepositoryFactoryHttp ''http://node:3000''
             (Some \<lparr>configNetworkType = Some 152, configGenerationHash = None,
                    configWebsocketUrl = None\<rparr>) fresh))
        (snd (newRepositoryFactoryHttp ''http://node:3000''
             (Some \<lparr>configNetworkType = Some 152, configGenerationHash = None,
                    configWebsocketUrl = None\<rparr>) fresh))
        [SubscribeNetworkType 1, GetAccountInfo ''SDRDGFTDLLCB67D4HPGIMIHPNSRYRJRT7DOBGWZY'',
         RepositoryNetworkType 2])
     = []
   \<and> networkTypeSeen
     (run (fst (newRepositoryFactoryHttp ''http://node:3000''
             (Some \<lparr>configNetworkType = Some 152, configGenerationHash = None,
                    configWebsocketUrl = None\<rparr>) fresh))
        (snd (newRepositoryFactoryHttp ''http://node:3000''
             (Some \<lparr>configNetworkType = Some 152, configGenerationHash = None,
                    configWebsocketUrl = None\<rparr>) fresh))
        [SubscribeNetworkType 1, GetAccountInfo ''SDRDGFTDLLCB67D4HPGIMIHPNSRYRJRT7DOBGWZY'',
         RepositoryNetworkType 2])
     = [(1, Success 152), (2, Success 152)]
   \<and> requests
     (getAccountInfo
        (createAccountRepository
           (fst (newRepositoryFactoryHttp ''http://node:3000''
             (Some \<lparr>configNetworkType = Some 152, configGenerationHash = None,
                    configWebsocketUrl = None\<rparr>) fresh)))
        ''SDRDGFTDLLCB67D4HPGIMIHPNSRYRJRT7DOBGWZY'' fresh)
     = [AccountInfoRequest ''http://node:3000'' ''SDRDGFTDLLCB67D4HPGIMIHPNSRYRJRT7DOBGWZY'']"
  using explicit_network_type_no_fetch
    [where cfg = "\<lparr>configNetworkType = Some 152, configGenerationHash = None,
                   configWebsocketUrl = None\<rparr>"
       and nt = 152 and u = "''http://node:3000''" and ?w0.0 = fresh
       and f = "fst (newRepositoryFactoryHttp ''http://node:3000''
             (Some \<lparr>configNetworkType = Some 152, configGenerationHash = None,
                    configWebsocketUrl = None\<rparr>) fresh)"
       and ?w1.0 = "snd (newRepositoryFactoryHttp ''http://node:3000''
             (Some \<lparr>configNetworkType = Some 152, configGenerationHash = None,
                    configWebsocketUrl = None\<rparr>) fresh)"
       and evs = "[SubscribeNetworkType 1,
                   GetAccountInfo ''SDRDGFTDLLCB67D4HPGIMIHPNSRYRJRT7DOBGWZY'',
                   RepositoryNetworkType 2]"
       and plain = "''SDRDGFTDLLCB67D4HPGIMIHPNSRYRJRT7DOBGWZY''" and w = fresh]
  by (simp add: networkTypeFetches_def fresh_def)

end
